theory Spec2Isabelle
  imports Complex_Main
begin

section \<open>Telemetry metrics (telemetry/metrics.py)\<close>

text \<open>
  The dataclasses of \<^verbatim>\<open>metrics.py\<close>, one record each. Python floats are modelled as
  \<^typ>\<open>real\<close>: the validator only subtracts and compares them. The \<^verbatim>\<open>timestamp\<close>
  fields hold the wall clock (\<^verbatim>\<open>datetime.now()\<close>) and are left out; no function below
  reads them.
\<close>

record latency_metrics =
  source :: string
  destination :: string
  min_latency_ms :: real
  avg_latency_ms :: real
  max_latency_ms :: real
  packet_loss_percent :: real

record path_hop =
  hop_number :: nat
  hostname :: "string option"
  ip_address :: string
  latency_ms :: "real option"

record path_metrics =
  path_source :: string
  path_destination :: string
  hops :: "path_hop list"
  total_hops :: nat

record interface_counter =
  interface_name :: string
  bytes_sent :: int
  bytes_received :: int
  packets_sent :: int
  packets_received :: int
  drops_sent :: int
  drops_received :: int

record throughput_metrics =
  tp_source :: string
  tp_destination :: string
  bandwidth_mbps :: real

record telemetry_metrics =
  latency :: "latency_metrics option"
  path :: "path_metrics option"
  interfaces :: "interface_counter list"
  throughput :: "throughput_metrics option"

section \<open>The validator (validation/validator.py)\<close>

datatype ValidationStatus = PASS | FAIL | WARNING

fun status_value :: "ValidationStatus \<Rightarrow> string" where
  "status_value PASS = ''pass''"
| "status_value FAIL = ''fail''"
| "status_value WARNING = ''warning''"

text \<open>
  The evidence lines are f-strings over floats printed with two decimals. Each line is
  kept as a constructor holding the values the f-string prints, in the order it prints
  them.
\<close>

datatype detail =
    LatencyExceeded real real real
  | LatencyWithin real real
  | LossExceeded real real real
  | LossWithin real real
  | PathChangeDetected nat nat
  | BaselinePath "string list"
  | CurrentPath "string list"
  | PathUnchanged
  | ConnectivityFailed
  | ConnectivityDegraded real
  | ConnectivityOK real real
  | NoLatencyMetrics

record ValidationResult =
  status :: ValidationStatus
  message :: string
  baseline_metrics :: "telemetry_metrics option"
  current_metrics :: "telemetry_metrics option"
  details :: "detail list"

definition is_pass :: "ValidationResult \<Rightarrow> bool" where
  "is_pass r = (status r = PASS)"

record NetworkValidator =
  latency_threshold_ms :: real
  packet_loss_threshold_percent :: real
  path_change_allowed :: bool

text \<open>
  \<^verbatim>\<open>NetworkValidator.__init__\<close>: an argument that is not given (\<open>None\<close> here) takes
  the default of the signature: 50.0, 5.0 and \<^verbatim>\<open>False\<close>.
\<close>

definition NetworkValidator_init ::
    "real option \<Rightarrow> real option \<Rightarrow> bool option \<Rightarrow> NetworkValidator" where
  "NetworkValidator_init lt pl pca =
     \<lparr> latency_threshold_ms = (case lt of None \<Rightarrow> 50 | Some x \<Rightarrow> x),
       packet_loss_threshold_percent = (case pl of None \<Rightarrow> 5 | Some x \<Rightarrow> x),
       path_change_allowed = (case pca of None \<Rightarrow> False | Some b \<Rightarrow> b) \<rparr>"

definition default_validator :: NetworkValidator where
  "default_validator = NetworkValidator_init None None None"

definition validate_latency ::
    "NetworkValidator \<Rightarrow> latency_metrics \<Rightarrow> latency_metrics \<Rightarrow> ValidationResult" where
  "validate_latency v baseline current =
     (let latency_increase = avg_latency_ms current - avg_latency_ms baseline;
          st = (if latency_increase > latency_threshold_ms v then FAIL else PASS);
          ds = (if latency_increase > latency_threshold_ms v
                then [LatencyExceeded latency_increase (avg_latency_ms baseline)
                        (avg_latency_ms current)]
                else [LatencyWithin (avg_latency_ms current) (avg_latency_ms baseline)])
      in \<lparr> status = st, message = ''Latency validation: '' @ status_value st,
           baseline_metrics = None, current_metrics = None, details = ds \<rparr>)"

definition validate_packet_loss ::
    "NetworkValidator \<Rightarrow> latency_metrics \<Rightarrow> latency_metrics \<Rightarrow> ValidationResult" where
  "validate_packet_loss v baseline current =
     (let loss_increase = packet_loss_percent current - packet_loss_percent baseline;
          st = (if loss_increase > packet_loss_threshold_percent v then FAIL else PASS);
          ds = (if loss_increase > packet_loss_threshold_percent v
                then [LossExceeded loss_increase (packet_loss_percent baseline)
                        (packet_loss_percent current)]
                else [LossWithin (packet_loss_percent current)
                        (packet_loss_percent baseline)])
      in \<lparr> status = st, message = ''Packet loss validation: '' @ status_value st,
           baseline_metrics = None, current_metrics = None, details = ds \<rparr>)"

definition validate_path ::
    "NetworkValidator \<Rightarrow> path_metrics \<Rightarrow> path_metrics \<Rightarrow> ValidationResult" where
  "validate_path v baseline current =
     (let baseline_hops = map ip_address (hops baseline);
          current_hops = map ip_address (hops current);
          st = (if baseline_hops \<noteq> current_hops then WARNING else PASS);
          ds = (if baseline_hops \<noteq> current_hops
                then [PathChangeDetected (length baseline_hops) (length current_hops),
                      BaselinePath baseline_hops, CurrentPath current_hops]
                else [PathUnchanged])
      in \<lparr> status = st, message = ''Path validation: '' @ status_value st,
           baseline_metrics = None, current_metrics = None, details = ds \<rparr>)"

text \<open>
  \<^verbatim>\<open>validate\<close> keeps a running pair of the overall status and the evidence collected so
  far; one step per sub-check, in the order of the source. A dataclass instance is
  always truthy, so \<^verbatim>\<open>baseline.latency and current.latency\<close> holds exactly when
  neither field is \<^verbatim>\<open>None\<close>.
\<close>

definition latency_step ::
    "NetworkValidator \<Rightarrow> telemetry_metrics \<Rightarrow> telemetry_metrics \<Rightarrow>
     ValidationStatus \<times> detail list \<Rightarrow> ValidationStatus \<times> detail list" where
  "latency_step v baseline current acc =
     (case (latency baseline, latency current) of
        (Some bl, Some cl) \<Rightarrow>
          (let latency_result = validate_latency v bl cl
           in ((if \<not> is_pass latency_result then FAIL else fst acc),
               snd acc @ details latency_result))
      | _ \<Rightarrow> acc)"

definition loss_step ::
    "NetworkValidator \<Rightarrow> telemetry_metrics \<Rightarrow> telemetry_metrics \<Rightarrow>
     ValidationStatus \<times> detail list \<Rightarrow> ValidationStatus \<times> detail list" where
  "loss_step v baseline current acc =
     (case (latency baseline, latency current) of
        (Some bl, Some cl) \<Rightarrow>
          (let loss_result = validate_packet_loss v bl cl
           in ((if \<not> is_pass loss_result then FAIL else fst acc),
               snd acc @ details loss_result))
      | _ \<Rightarrow> acc)"

definition path_step ::
    "NetworkValidator \<Rightarrow> telemetry_metrics \<Rightarrow> telemetry_metrics \<Rightarrow>
     ValidationStatus \<times> detail list \<Rightarrow> ValidationStatus \<times> detail list" where
  "path_step v baseline current acc =
     (case (path baseline, path current) of
        (Some bp, Some cp) \<Rightarrow>
          (let path_result = validate_path v bp cp
           in ((if \<not> is_pass path_result \<and> \<not> path_change_allowed v then FAIL
                else fst acc),
               snd acc @ details path_result))
      | _ \<Rightarrow> acc)"

definition validate ::
    "NetworkValidator \<Rightarrow> telemetry_metrics \<Rightarrow> telemetry_metrics \<Rightarrow> ValidationResult" where
  "validate v baseline current =
     (let acc = path_step v baseline current
                  (loss_step v baseline current
                     (latency_step v baseline current (PASS, [])));
          msg = (if fst acc = PASS
                 then ''Network validation passed: all metrics within acceptable thresholds''
                 else ''Network validation failed: metrics exceeded acceptable thresholds'')
      in \<lparr> status = fst acc, message = msg, baseline_metrics = Some baseline,
           current_metrics = Some current, details = snd acc \<rparr>)"

definition validate_connectivity ::
    "NetworkValidator \<Rightarrow> telemetry_metrics \<Rightarrow> ValidationResult" where
  "validate_connectivity v metrics =
     (let (st, ds) =
            (case latency metrics of
               Some l \<Rightarrow>
                 if packet_loss_percent l \<ge> 100 then (FAIL, [ConnectivityFailed])
                 else if packet_loss_percent l > 50
                 then (FAIL, [ConnectivityDegraded (packet_loss_percent l)])
                 else (PASS, [ConnectivityOK (packet_loss_percent l) (avg_latency_ms l)])
             | None \<Rightarrow> (FAIL, [NoLatencyMetrics]))
      in \<lparr> status = st, message = ''Connectivity validation: '' @ status_value st,
           baseline_metrics = None, current_metrics = None, details = ds \<rparr>)"

text \<open>
  The statuses of the sub-checks that \<^verbatim>\<open>validate\<close> runs on a pair of snapshots, in
  the order latency, loss, path.
\<close>

definition subcheck_statuses ::
    "NetworkValidator \<Rightarrow> telemetry_metrics \<Rightarrow> telemetry_metrics \<Rightarrow> ValidationStatus list" where
  "subcheck_statuses v baseline current =
     (case (latency baseline, latency current) of
        (Some bl, Some cl) \<Rightarrow>
          [status (validate_latency v bl cl), status (validate_packet_loss v bl cl)]
      | _ \<Rightarrow> []) @
     (case (path baseline, path current) of
        (Some bp, Some cp) \<Rightarrow> [status (validate_path v bp cp)]
      | _ \<Rightarrow> [])"

text \<open>
  The specification's reading of the overall verdict: the most severe status of a list
  under the order Fail > Warning > Pass (Pass for the empty list).
\<close>

definition spec_most_severe :: "ValidationStatus list \<Rightarrow> ValidationStatus" where
  "spec_most_severe sts =
     (if FAIL \<in> set sts then FAIL else if WARNING \<in> set sts then WARNING else PASS)"

text \<open>A snapshot with a healthy latency record and a path of one hop at the given
  address.\<close>

definition one_hop_snapshot :: "string \<Rightarrow> telemetry_metrics" where
  "one_hop_snapshot ip =
     \<lparr> latency = Some \<lparr> source = ''h1'', destination = ''h2'', min_latency_ms = 1,
                        avg_latency_ms = 2, max_latency_ms = 3, packet_loss_percent = 0 \<rparr>,
       path = Some \<lparr> path_source = ''h1'', path_destination = ''h2'',
                     hops = [\<lparr> hop_number = 1, hostname = None, ip_address = ip,
                              latency_ms = Some 1 \<rparr>],
                     total_hops = 1 \<rparr>,
       interfaces = [], throughput = None \<rparr>"

section \<open>Python string operations\<close>

text \<open>
  A Python \<^verbatim>\<open>str\<close> is modelled as a \<^typ>\<open>string\<close> of ASCII characters. The
  operations below are the built-in string methods the sources call, on ASCII text.
\<close>

text \<open>\<^verbatim>\<open>c.isspace()\<close>: tab, line feed, vertical tab, form feed, carriage return, the
  four separators 0x1C to 0x1F, and the space.\<close>

definition whitespace_chars :: "char list" where
  "whitespace_chars =
     [CHR 0x09, CHR 0x0A, CHR 0x0B, CHR 0x0C, CHR 0x0D,
      CHR 0x1C, CHR 0x1D, CHR 0x1E, CHR 0x1F, CHR 0x20]"

definition is_space :: "char \<Rightarrow> bool" where
  "is_space c = (c \<in> set whitespace_chars)"

text \<open>\<^verbatim>\<open>s.strip()\<close>\<close>

definition strip :: "string \<Rightarrow> string" where
  "strip s = rev (dropWhile is_space (rev (dropWhile is_space s)))"

text \<open>\<^verbatim>\<open>s.startswith(p)\<close>\<close>

fun startswith :: "string \<Rightarrow> string \<Rightarrow> bool" where
  "startswith s [] = True"
| "startswith [] (p # ps) = False"
| "startswith (c # cs) (p # ps) = (c = p \<and> startswith cs ps)"

text \<open>\<^verbatim>\<open>p in s\<close>\<close>

fun contains :: "string \<Rightarrow> string \<Rightarrow> bool" where
  "contains [] p = (p = [])"
| "contains (c # cs) p = (startswith (c # cs) p \<or> contains cs p)"

text \<open>\<^verbatim>\<open>s.split(sep)\<close> for a separator of one character.\<close>

fun split_char :: "char \<Rightarrow> string \<Rightarrow> string list" where
  "split_char sep [] = [[]]"
| "split_char sep (c # cs) =
     (if c = sep then [] # split_char sep cs
      else (case split_char sep cs of
              [] \<Rightarrow> [[c]]
            | w # ws \<Rightarrow> (c # w) # ws))"

text \<open>\<^verbatim>\<open>s.split(sep, 1)\<close> for a separator that is not empty: one piece when \<open>sep\<close>
  does not occur, else the text before and the text after its first occurrence.\<close>

fun split_once :: "string \<Rightarrow> string \<Rightarrow> string list" where
  "split_once [] sep = [[]]"
| "split_once (c # cs) sep =
     (if startswith (c # cs) sep then [[], drop (length sep) (c # cs)]
      else (case split_once cs sep of
              [] \<Rightarrow> [[c]]
            | w # ws \<Rightarrow> (c # w) # ws))"

text \<open>\<^verbatim>\<open>s.split()\<close>: the maximal runs of characters that are not whitespace. The first
  argument is the run being read.\<close>

fun split_ws_from :: "string \<Rightarrow> string \<Rightarrow> string list" where
  "split_ws_from w [] = (if w = [] then [] else [w])"
| "split_ws_from w (c # cs) =
     (if is_space c then (if w = [] then split_ws_from [] cs else w # split_ws_from [] cs)
      else split_ws_from (w @ [c]) cs)"

definition split_ws :: "string \<Rightarrow> string list" where
  "split_ws s = split_ws_from [] s"

text \<open>\<^verbatim>\<open>s.replace('eth', '')\<close>: every occurrence of \<^verbatim>\<open>eth\<close>, found left to right
  without overlap, is deleted.\<close>

function replace_eth :: "string \<Rightarrow> string" where
  "replace_eth s =
     (if s = [] then []
      else if startswith s ''eth'' then replace_eth (drop 3 s)
      else hd s # replace_eth (tl s))"
  by pat_completeness auto
termination
  by (relation "measure length") auto

declare replace_eth.simps [simp del]

definition digit_chars :: "char list" where
  "digit_chars = ''0123456789''"

definition is_digit :: "char \<Rightarrow> bool" where
  "is_digit c = (c \<in> set digit_chars)"

text \<open>\<^verbatim>\<open>s.isdigit()\<close>\<close>

definition isdigit :: "string \<Rightarrow> bool" where
  "isdigit s = (s \<noteq> [] \<and> list_all is_digit s)"

definition digit_val :: "char \<Rightarrow> nat" where
  "digit_val c = of_char c - 48"

text \<open>\<^verbatim>\<open>int(s)\<close> on a string of decimal digits.\<close>

definition int_of_digits :: "string \<Rightarrow> nat" where
  "int_of_digits s = foldl (\<lambda>a c. 10 * a + digit_val c) 0 s"

text \<open>\<^verbatim>\<open>str(n)\<close> for \<open>n \<ge> 0\<close>.\<close>

function str_nat :: "nat \<Rightarrow> string" where
  "str_nat n =
     (if n < 10 then [digit_chars ! n] else str_nat (n div 10) @ [digit_chars ! (n mod 10)])"
  by pat_completeness auto
termination
  by (relation "measure id") auto

declare str_nat.simps [simp del]

section \<open>Exceptions, return values, the log\<close>

text \<open>
  The exceptions the modelled code raises or meets; all are subclasses of
  \<^verbatim>\<open>Exception\<close>, which is what the \<^verbatim>\<open>except Exception\<close> handlers of the sources
  catch. The first six are \<^verbatim>\<open>DeviceConnectionError\<close> with the message of the
  \<^verbatim>\<open>raise\<close> that builds it (the device name, and the wrapped exception where the
  message prints one).
\<close>

datatype exn =
    DeviceNotConnected string
  | CannotConnectNoNode string
  | CannotApplyNoNode string
  | SessionNotConnected string
  | FailedToConnect string exn
  | FailedToDeploy string exn
  | IndexError
  | ValueError
  | AttributeError
  | OtherException string

fun is_DeviceConnectionError :: "exn \<Rightarrow> bool" where
  "is_DeviceConnectionError (DeviceNotConnected _) = True"
| "is_DeviceConnectionError (CannotConnectNoNode _) = True"
| "is_DeviceConnectionError (CannotApplyNoNode _) = True"
| "is_DeviceConnectionError (SessionNotConnected _) = True"
| "is_DeviceConnectionError (FailedToConnect _ _) = True"
| "is_DeviceConnectionError (FailedToDeploy _ _) = True"
| "is_DeviceConnectionError _ = False"

datatype py_value = PyNone | PyInt int

text \<open>How a call ends: it returns a value or raises.\<close>

datatype outcome = Returns py_value | Raises exn

text \<open>
  A call of the module logger, as its level and the message with the values its
  f-string prints.
\<close>

datatype log_level = LogDebug | LogInfo | LogWarning | LogError

datatype log_msg =
    AlreadyConnected string
  | ConnectedTo string
  | SetHostname string string
  | ConfiguringInterface string string
  | IPConfigResult string string
  | EnabledForwarding string string
  | ConfiguredIP string string string string
  | IPNotFound string string string
  | AddedRoute string string string
  | FailedToApplyLine string string exn
  | SentConfiguration string nat
  | NoPendingConfiguration string
  | CommittedChanges string
  | DisconnectedFrom string
  | SessionAlreadyConnected string
  | EstablishedSession string
  | ClosedSession string
  | ErrorDisconnecting string exn
  | DeployingConfiguration string
  | DeployedAndCommitted string
  | SentPendingCommit string

type_synonym log_entry = "log_level \<times> log_msg"

section \<open>The device command executor\<close>

text \<open>
  The Mininet node behind a device is outside the repository. It is modelled by what
  the code sees of it: \<^verbatim>\<open>node.cmd(c)\<close> returns text or raises, and the answer may depend
  on the commands the node has received before. \<open>received\<close> is that history.
\<close>

datatype cmd_result = Output string | CmdRaises exn

record node =
  respond :: "string list \<Rightarrow> string \<Rightarrow> cmd_result"
  received :: "string list"

definition node_cmd :: "node \<Rightarrow> string \<Rightarrow> node \<times> cmd_result" where
  "node_cmd n c = (n\<lparr>received := received n @ [c]\<rparr>, respond n (received n) c)"

section \<open>The simulated device (automation/device.py)\<close>

text \<open>
  The fields of \<^verbatim>\<open>SimulatedDevice\<close>, and \<open>logged\<close>: the calls of the logger made by
  the methods of the device, oldest first.
\<close>

record SimulatedDevice =
  device_name :: string
  device_type :: string
  connected :: bool
  config_pending :: bool
  node :: "node option"
  applied_config :: "string list"
  current_interface :: "string option"
  logged :: "log_entry list"

definition log_to :: "SimulatedDevice \<Rightarrow> log_entry \<Rightarrow> SimulatedDevice" where
  "log_to d e = d\<lparr>logged := logged d @ [e]\<rparr>"

definition SimulatedDevice_init :: "string \<Rightarrow> string \<Rightarrow> node option \<Rightarrow> SimulatedDevice" where
  "SimulatedDevice_init name type nd =
     \<lparr> device_name = name, device_type = type, connected = False, config_pending = False,
       node = nd, applied_config = [], current_interface = None, logged = [] \<rparr>"

definition connect :: "SimulatedDevice \<Rightarrow> SimulatedDevice \<times> outcome" where
  "connect d =
     (if connected d then (log_to d (LogWarning, AlreadyConnected (device_name d)), Returns PyNone)
      else if node d = None then (d, Raises (CannotConnectNoNode (device_name d)))
      else (log_to (d\<lparr>connected := True\<rparr>) (LogInfo, ConnectedTo (device_name d)),
            Returns PyNone))"

text \<open>\<^verbatim>\<open>self.node.cmd(c)\<close>; on a device without a node the attribute lookup raises.\<close>

definition dev_cmd :: "SimulatedDevice \<Rightarrow> string \<Rightarrow> SimulatedDevice \<times> cmd_result" where
  "dev_cmd d c =
     (case node d of
        None \<Rightarrow> (d, CmdRaises AttributeError)
      | Some n \<Rightarrow> (case node_cmd n c of (n', r) \<Rightarrow> (d\<lparr>node := Some n'\<rparr>, r)))"

text \<open>Sequencing inside the \<^verbatim>\<open>try\<close> block of one line: a raising command ends the
  line with the state reached so far.\<close>

definition then_cmd ::
    "SimulatedDevice \<times> cmd_result \<Rightarrow> (SimulatedDevice \<Rightarrow> string \<Rightarrow> SimulatedDevice \<times> exn option)
     \<Rightarrow> SimulatedDevice \<times> exn option" where
  "then_cmd r k = (case r of (d, Output s) \<Rightarrow> k d s | (d, CmdRaises e) \<Rightarrow> (d, Some e))"

text \<open>\<^verbatim>\<open>xs[i]\<close>\<close>

definition item :: "'a list \<Rightarrow> nat \<Rightarrow> exn + 'a" where
  "item xs i = (if i < length xs then Inr (xs ! i) else Inl IndexError)"

text \<open>
  The numeral after \<^verbatim>\<open>-eth\<close> in the name of the interface an \<^verbatim>\<open>ip address\<close> line
  configures (lines 194 to 206): from the interface context when it is set and not
  empty, else the first interface of the device type.
\<close>

definition target_eth_num :: "string \<Rightarrow> string option \<Rightarrow> string" where
  "target_eth_num dtype ctx =
     (if ctx \<noteq> None \<and> ctx \<noteq> Some []
      then (let eth_num = replace_eth (the ctx)
            in if dtype = ''switch''
               then (if isdigit eth_num then str_nat (int_of_digits eth_num + 1) else ''1'')
               else eth_num)
      else (if dtype = ''switch'' then ''1'' else ''0''))"

definition target_if_name :: "SimulatedDevice \<Rightarrow> string" where
  "target_if_name d =
     device_name d @ ''-eth'' @ target_eth_num (device_type d) (current_interface d)"

definition cidr_map :: "(string \<times> string) list" where
  "cidr_map = [(''255.255.255.0'', ''/24''), (''255.255.0.0'', ''/16''), (''255.0.0.0'', ''/8'')]"

definition cidr_of :: "string option \<Rightarrow> string" where
  "cidr_of netmask =
     (case netmask of
        None \<Rightarrow> ''/24''
      | Some m \<Rightarrow> if m = [] then ''/24''
                  else (case map_of cidr_map m of None \<Rightarrow> ''/24'' | Some c \<Rightarrow> c))"

definition apply_hostname :: "SimulatedDevice \<Rightarrow> string \<Rightarrow> SimulatedDevice \<times> exn option" where
  "apply_hostname d stripped =
     (case item (split_once stripped ''hostname '') 1 of
        Inl e \<Rightarrow> (d, Some e)
      | Inr rest \<Rightarrow>
          (let hostname = strip rest
           in then_cmd (dev_cmd d (''hostname '' @ hostname))
                (\<lambda>d _. (log_to d (LogDebug, SetHostname hostname (device_name d)), None))))"

definition apply_interface :: "SimulatedDevice \<Rightarrow> string \<Rightarrow> SimulatedDevice \<times> exn option" where
  "apply_interface d stripped =
     (case item (split_once stripped ''interface '') 1 of
        Inl e \<Rightarrow> (d, Some e)
      | Inr rest \<Rightarrow>
          (log_to (d\<lparr>current_interface := Some (strip rest)\<rparr>)
             (LogDebug, ConfiguringInterface (strip rest) (device_name d)), None))"

definition switch_setup :: "SimulatedDevice \<Rightarrow> string \<Rightarrow> SimulatedDevice \<times> exn option" where
  "switch_setup d if_name =
     (if device_type d = ''switch''
      then then_cmd (dev_cmd d ''sysctl -w net.ipv4.ip_forward=1 > /dev/null 2>&1'')
        (\<lambda>d _. then_cmd (dev_cmd d (''echo 1 > /proc/sys/net/ipv4/conf/'' @ if_name @
                                      ''/proxy_arp 2>/dev/null || true''))
        (\<lambda>d _. then_cmd (dev_cmd d (''echo 1 > /proc/sys/net/ipv4/conf/'' @ if_name @
                                      ''/arp_ignore 2>/dev/null || true''))
        (\<lambda>d _. then_cmd (dev_cmd d (''echo 2 > /proc/sys/net/ipv4/conf/'' @ if_name @
                                      ''/arp_announce 2>/dev/null || true''))
        (\<lambda>d _. (log_to d (LogDebug, EnabledForwarding (device_name d) if_name), None)))))
      else (d, None))"

definition verify_ip ::
    "SimulatedDevice \<Rightarrow> string \<Rightarrow> string \<Rightarrow> string \<Rightarrow> SimulatedDevice \<times> exn option" where
  "verify_ip d if_name ip_addr cidr =
     then_cmd (dev_cmd d (''ip addr show '' @ if_name @ '' 2>/dev/null''))
       (\<lambda>d verify.
          if contains verify ip_addr
          then (log_to d (LogInfo, ConfiguredIP ip_addr cidr if_name (device_name d)), None)
          else (log_to d (LogWarning, IPNotFound ip_addr if_name (take 200 verify)), None))"

definition apply_ip_address ::
    "SimulatedDevice \<Rightarrow> string \<Rightarrow> string \<Rightarrow> SimulatedDevice \<times> exn option" where
  "apply_ip_address d line stripped =
     (case (if contains line '' ip address '' then item (split_once line '' ip address '') 1
            else item (split_once stripped ''ip address '') 1) of
        Inl e \<Rightarrow> (d, Some e)
      | Inr rest \<Rightarrow>
          (case split_ws (strip rest) of
             [] \<Rightarrow> (d, Some IndexError)
           | ip_addr # others \<Rightarrow>
               (let netmask = (case others of [] \<Rightarrow> None | m # _ \<Rightarrow> Some m);
                    if_name = target_if_name d;
                    cidr = cidr_of netmask
                in then_cmd (dev_cmd d (''ip addr flush dev '' @ if_name @ '' 2>&1''))
                  (\<lambda>d flush_result.
                   then_cmd (dev_cmd d (''ip addr add '' @ ip_addr @ cidr @ '' dev '' @
                                        if_name @ '' 2>&1''))
                  (\<lambda>d result.
                   then_cmd
                     (dev_cmd
                        (if result \<noteq> [] \<and> strip result \<noteq> [] \<and>
                            \<not> contains result ''Cannot find device''
                         then log_to d (LogWarning, IPConfigResult if_name (strip result))
                         else d)
                        (''ip link set '' @ if_name @ '' up 2>/dev/null || true''))
                  (\<lambda>d _.
                   (case switch_setup d if_name of
                      (d, Some e) \<Rightarrow> (d, Some e)
                    | (d, None) \<Rightarrow> verify_ip d if_name ip_addr cidr)))))))"

definition apply_ip_route :: "SimulatedDevice \<Rightarrow> string \<Rightarrow> SimulatedDevice \<times> exn option" where
  "apply_ip_route d line =
     (case item (split_once line ''ip route '') 1 of
        Inl e \<Rightarrow> (d, Some e)
      | Inr rest \<Rightarrow>
          (case split_ws (strip rest) of
             [] \<Rightarrow> (d, Some IndexError)
           | network # others \<Rightarrow>
               (case others of
                  [] \<Rightarrow> (d, None)
                | next_hop # _ \<Rightarrow>
                    if next_hop = [] then (d, None)
                    else
                      (let network = (if \<not> contains network ''/'' then network @ ''/24''
                                      else network)
                       in then_cmd (dev_cmd d (''ip route del '' @ network @ '' via '' @
                                               next_hop @ '' 2>/dev/null || true''))
                         (\<lambda>d _.
                          then_cmd (dev_cmd d (''ip route add '' @ network @ '' via '' @
                                               next_hop @ '' 2>&1''))
                         (\<lambda>d result.
                          if result \<noteq> [] \<and> \<not> contains result ''File exists'' \<and>
                             \<not> contains result ''Cannot find device''
                          then (log_to d (LogDebug, AddedRoute network next_hop (device_name d)),
                                None)
                          else (log_to d (LogInfo, AddedRoute network next_hop (device_name d)),
                                None)))))))"

text \<open>The body of the \<^verbatim>\<open>try\<close> block for one line: the \<^verbatim>\<open>if\<close>/\<^verbatim>\<open>elif\<close> chain, in
  the order of the source; a line that matches no branch does nothing.\<close>

definition try_line :: "SimulatedDevice \<Rightarrow> string \<Rightarrow> SimulatedDevice \<times> exn option" where
  "try_line d line =
     (let stripped = strip line
      in if startswith stripped ''hostname '' then apply_hostname d stripped
         else if startswith stripped ''interface '' then apply_interface d stripped
         else if startswith stripped ''ip address '' \<or>
                 (startswith line '' '' \<and> contains stripped ''ip address'')
         then apply_ip_address d line stripped
         else if startswith line ''ip route '' then apply_ip_route d line
         else (d, None))"

text \<open>One iteration of the loop: the \<^verbatim>\<open>try\<close> block and its handler, which logs a
  warning and goes on.\<close>

definition apply_line :: "SimulatedDevice \<Rightarrow> string \<Rightarrow> SimulatedDevice" where
  "apply_line d line =
     (case try_line d line of
        (d', None) \<Rightarrow> d'
      | (d', Some e) \<Rightarrow> log_to d' (LogWarning, FailedToApplyLine line (device_name d') e))"

definition config_lines :: "string \<Rightarrow> string list" where
  "config_lines config =
     filter (\<lambda>line. strip line \<noteq> [] \<and> \<not> startswith (strip line) ''#'')
       (split_char CHR 0x0A config)"

definition send_config :: "SimulatedDevice \<Rightarrow> string \<Rightarrow> SimulatedDevice \<times> outcome" where
  "send_config d config =
     (if \<not> connected d then (d, Raises (DeviceNotConnected (device_name d)))
      else if node d = None then (d, Raises (CannotApplyNoNode (device_name d)))
      else
        (let lines = config_lines config;
             d1 = foldl apply_line (d\<lparr>current_interface := None\<rparr>) lines;
             d2 = d1\<lparr>applied_config := applied_config d1 @ lines, config_pending := True\<rparr>
         in (log_to d2 (LogInfo, SentConfiguration (device_name d2) (length lines)),
             Returns PyNone)))"

definition commit :: "SimulatedDevice \<Rightarrow> SimulatedDevice \<times> outcome" where
  "commit d =
     (if \<not> connected d then (d, Raises (DeviceNotConnected (device_name d)))
      else if \<not> config_pending d
      then (log_to d (LogDebug, NoPendingConfiguration (device_name d)), Returns PyNone)
      else (log_to (d\<lparr>config_pending := False\<rparr>) (LogInfo, CommittedChanges (device_name d)),
            Returns PyNone))"

definition disconnect :: "SimulatedDevice \<Rightarrow> SimulatedDevice \<times> outcome" where
  "disconnect d =
     (if \<not> connected d then (d, Returns PyNone)
      else (log_to (d\<lparr>connected := False\<rparr>) (LogInfo, DisconnectedFrom (device_name d)),
            Returns PyNone))"

definition get_applied_config :: "SimulatedDevice \<Rightarrow> string list" where
  "get_applied_config d = applied_config d"

definition is_connected :: "SimulatedDevice \<Rightarrow> bool" where
  "is_connected d = connected d"

definition has_pending_config :: "SimulatedDevice \<Rightarrow> bool" where
  "has_pending_config d = config_pending d"

text \<open>A node that answers every command with empty output, and a connected device on
  it, for the examples.\<close>

definition quiet_node :: node where
  "quiet_node = \<lparr> respond = (\<lambda>_ _. Output []), received = [] \<rparr>"

definition connected_device :: "string \<Rightarrow> string \<Rightarrow> node \<Rightarrow> SimulatedDevice" where
  "connected_device name type nd = fst (connect (SimulatedDevice_init name type (Some nd)))"


text \<open>
  The parts of a device that no configuration line writes.
\<close>

definition same_frame :: "SimulatedDevice \<Rightarrow> SimulatedDevice \<Rightarrow> bool" where
  "same_frame d d' =
     (device_name d' = device_name d \<and> device_type d' = device_type d \<and>
      connected d' = connected d \<and> config_pending d' = config_pending d \<and>
      applied_config d' = applied_config d \<and> (node d' = None) = (node d = None))"

text \<open>
  A node whose first command raises and whose later commands answer with empty
  output.
\<close>

definition raise_first_node :: node where
  "raise_first_node =
     \<lparr> respond = (\<lambda>h _. if h = [] then CmdRaises (OtherException ''boom'') else Output []),
       received = [] \<rparr>"

section \<open>The device session (automation/session.py)\<close>

text \<open>
  \<^verbatim>\<open>DeviceSession\<close> is written against the abstract class \<^verbatim>\<open>NetworkDevice\<close>: it calls
  the four lifecycle methods of whatever device it holds and reads its name. A device
  class is modelled by these methods over its state \<^typ>\<open>'d\<close>; a method returns the
  state it leaves and how the call ended.
\<close>

record 'd NetworkDevice =
  name_of :: "'d \<Rightarrow> string"
  connect_of :: "'d \<Rightarrow> 'd \<times> outcome"
  send_config_of :: "'d \<Rightarrow> string \<Rightarrow> 'd \<times> outcome"
  commit_of :: "'d \<Rightarrow> 'd \<times> outcome"
  disconnect_of :: "'d \<Rightarrow> 'd \<times> outcome"

definition SimulatedDevice_class :: "SimulatedDevice NetworkDevice" where
  "SimulatedDevice_class =
     \<lparr> name_of = device_name, connect_of = connect, send_config_of = send_config,
       commit_of = commit, disconnect_of = disconnect \<rparr>"

text \<open>The fields of a session, and \<open>session_log\<close>: the calls of the logger made by
  the methods of the session, oldest first.\<close>

record 'd DeviceSession =
  device :: 'd
  session_connected :: bool
  session_log :: "log_entry list"

definition slog :: "'d DeviceSession \<Rightarrow> log_entry \<Rightarrow> 'd DeviceSession" where
  "slog s e = s\<lparr>session_log := session_log s @ [e]\<rparr>"

definition DeviceSession_init :: "'d \<Rightarrow> 'd DeviceSession" where
  "DeviceSession_init d = \<lparr> device = d, session_connected = False, session_log = [] \<rparr>"

definition session_connect ::
    "'d NetworkDevice \<Rightarrow> 'd DeviceSession \<Rightarrow> 'd DeviceSession \<times> outcome" where
  "session_connect cls s =
     (if session_connected s
      then (slog s (LogWarning, SessionAlreadyConnected (name_of cls (device s))),
            Returns PyNone)
      else (case connect_of cls (device s) of
              (d, Raises e) \<Rightarrow>
                (s\<lparr>device := d\<rparr>, Raises (FailedToConnect (name_of cls d) e))
            | (d, Returns _) \<Rightarrow>
                (slog (s\<lparr>device := d, session_connected := True\<rparr>)
                   (LogInfo, EstablishedSession (name_of cls d)),
                 Returns PyNone)))"



text \<open>\<^verbatim>\<open>__enter__\<close> and \<^verbatim>\<open>__exit__\<close>. \<^verbatim>\<open>__exit__\<close> returns \<^verbatim>\<open>False\<close>, so an exception
  of the \<^verbatim>\<open>with\<close> body is raised again after it; \<open>exit_returns\<close> is that value.\<close>

definition session_enter ::
    "'d NetworkDevice \<Rightarrow> 'd DeviceSession \<Rightarrow> 'd DeviceSession \<times> outcome" where
  "session_enter cls s = session_connect cls s"




section \<open>The telemetry parsers (telemetry/collector.py)\<close>

text \<open>
  \<^verbatim>\<open>float(s)\<close> on a string of digits and dots, which is all the two patterns of
  \<^verbatim>\<open>_parse_ping_output\<close> can capture: digits with at most one dot and at least one
  digit, else \<^verbatim>\<open>ValueError\<close>. The value is the decimal number itself; the rounding
  to a double is left out (it is monotone and keeps 0 and 100 fixed).
\<close>

definition py_float :: "string \<Rightarrow> exn + real" where
  "py_float s =
     (let ip = takeWhile is_digit s; r = dropWhile is_digit s
      in if r = [] then (if ip = [] then Inl ValueError else Inr (real (int_of_digits ip)))
         else if hd r = CHR ''.'' \<and> list_all is_digit (tl r) \<and> (ip \<noteq> [] \<or> tl r \<noteq> [])
         then Inr (real (int_of_digits ip) +
                   real (int_of_digits (tl r)) / 10 ^ length (tl r))
         else Inl ValueError)"

text \<open>
  The pattern \<^verbatim>\<open>(\d+(?:\.\d+)?)% packet loss\<close> tried at the start of \<open>s\<close>; the result
  is group 1. The digits are taken greedily; a shorter choice never helps, since the
  character after a shorter run is a digit and the text that must follow starts with
  \<^verbatim>\<open>%\<close>.
\<close>

definition loss_match_at :: "string \<Rightarrow> string option" where
  "loss_match_at s =
     (let ds = takeWhile is_digit s; r = dropWhile is_digit s
      in if ds = [] then None
         else (let fs = takeWhile is_digit (tl r); r' = dropWhile is_digit (tl r)
               in if r \<noteq> [] \<and> hd r = CHR ''.'' \<and> fs \<noteq> [] \<and>
                     startswith r' ''% packet loss''
                  then Some (ds @ ''.'' @ fs)
                  else if startswith r ''% packet loss'' then Some ds
                  else None))"

text \<open>\<^verbatim>\<open>re.search\<close>: the match at the leftmost position that has one.\<close>

fun loss_search :: "string \<Rightarrow> string option" where
  "loss_search [] = None"
| "loss_search (c # cs) =
     (case loss_match_at (c # cs) of Some g \<Rightarrow> Some g | None \<Rightarrow> loss_search cs)"





text \<open>
  \<^verbatim>\<open>int(s)\<close> on a token of \<^verbatim>\<open>split()\<close> (so without whitespace): an optional sign,
  then groups of decimal digits separated by single underscores; else
  \<^verbatim>\<open>ValueError\<close>. The limit some interpreters put on the number of digits is left
  out.
\<close>

definition py_int :: "string \<Rightarrow> exn + int" where
  "py_int s =
     (let negative = (s \<noteq> [] \<and> hd s = CHR ''-'');
          body = (if s \<noteq> [] \<and> (hd s = CHR ''-'' \<or> hd s = CHR ''+'') then tl s else s);
          groups = split_char CHR ''_'' body
      in if list_all isdigit groups
         then Inr ((if negative then - 1 else 1) * int (int_of_digits (concat groups)))
         else Inl ValueError)"

text \<open>
  One iteration of the loop of \<^verbatim>\<open>_parse_proc_net_dev\<close>. \<open>skipped\<close> is the disjunction
  of the conditions that end the iteration with \<^verbatim>\<open>continue\<close>; \<open>stats_of\<close> is the list
  \<^verbatim>\<open>stats\<close> of a line that has exactly one colon.
\<close>

definition stats_of :: "string \<Rightarrow> string list" where
  "stats_of raw = split_ws (split_char CHR '':'' (strip raw) ! 1)"

definition skipped :: "string \<Rightarrow> bool" where
  "skipped raw =
     (let line = strip raw
      in line = [] \<or> \<not> contains line '':'' \<or> length (split_char CHR '':'' line) \<noteq> 2 \<or>
         length (stats_of raw) < 16)"

definition convert_line :: "string \<Rightarrow> exn + interface_counter" where
  "convert_line raw =
     (let name = strip (split_char CHR '':'' (strip raw) ! 0); stats = stats_of raw
      in case py_int (stats ! 0) of Inl e \<Rightarrow> Inl e | Inr b_recv \<Rightarrow>
         (case py_int (stats ! 1) of Inl e \<Rightarrow> Inl e | Inr p_recv \<Rightarrow>
         (case py_int (stats ! 3) of Inl e \<Rightarrow> Inl e | Inr d_recv \<Rightarrow>
         (case py_int (stats ! 8) of Inl e \<Rightarrow> Inl e | Inr b_sent \<Rightarrow>
         (case py_int (stats ! 9) of Inl e \<Rightarrow> Inl e | Inr p_sent \<Rightarrow>
         (case py_int (stats ! 11) of Inl e \<Rightarrow> Inl e | Inr d_sent \<Rightarrow>
            Inr \<lparr> interface_name = name, bytes_sent = b_sent, bytes_received = b_recv,
                  packets_sent = p_sent, packets_received = p_recv,
                  drops_sent = d_sent, drops_received = d_recv \<rparr>))))))"

text \<open>The loop: the first line whose conversion raises ends the call.\<close>

fun collect_counters :: "string list \<Rightarrow> exn + interface_counter list" where
  "collect_counters [] = Inr []"
| "collect_counters (l # ls) =
     (if skipped l then collect_counters ls
      else (case convert_line l of
              Inl e \<Rightarrow> Inl e
            | Inr c \<Rightarrow> (case collect_counters ls of
                          Inl e \<Rightarrow> Inl e
                        | Inr cs \<Rightarrow> Inr (c # cs))))"

definition parse_proc_net_dev :: "string \<Rightarrow> string \<Rightarrow> exn + interface_counter list" where
  "parse_proc_net_dev output node_name = collect_counters (split_char CHR 0x0A output)"

text \<open>A line of sixteen fields none of which is a number, and a line as the kernel
  prints it.\<close>

definition letters_line :: string where
  "letters_line = ''lo: a a a a a a a a a a a a a a a a''"

definition eth0_line :: string where
  "eth0_line = ''  eth0: 1500 10 0 1 0 0 0 0 2500 20 0 2 0 0 0 0''"

section \<open>Properties of the validator\<close>

lemma status_validate_path:
  "status (validate_path v bp cp) =
     (if map ip_address (hops bp) \<noteq> map ip_address (hops cp) then WARNING else PASS)"
  by (simp add: validate_path_def Let_def)

lemma status_validate_latency:
  "status (validate_latency v bl cl) =
     (if avg_latency_ms cl - avg_latency_ms bl > latency_threshold_ms v then FAIL else PASS)"
  by (simp add: validate_latency_def Let_def)

lemma status_validate_packet_loss:
  "status (validate_packet_loss v bl cl) =
     (if packet_loss_percent cl - packet_loss_percent bl > packet_loss_threshold_percent v
      then FAIL else PASS)"
  by (simp add: validate_packet_loss_def Let_def)

lemmas status_subchecks =
  status_validate_path status_validate_latency status_validate_packet_loss

lemma fst_latency_step:
  "fst (latency_step v b c acc) =
     (case (latency b, latency c) of
        (Some bl, Some cl) \<Rightarrow>
          if status (validate_latency v bl cl) = PASS then fst acc else FAIL
      | _ \<Rightarrow> fst acc)"
  by (simp add: latency_step_def is_pass_def Let_def split: option.splits)

lemma fst_loss_step:
  "fst (loss_step v b c acc) =
     (case (latency b, latency c) of
        (Some bl, Some cl) \<Rightarrow>
          if status (validate_packet_loss v bl cl) = PASS then fst acc else FAIL
      | _ \<Rightarrow> fst acc)"
  by (simp add: loss_step_def is_pass_def Let_def split: option.splits)

lemma fst_path_step:
  "fst (path_step v b c acc) =
     (case (path b, path c) of
        (Some bp, Some cp) \<Rightarrow>
          if status (validate_path v bp cp) \<noteq> PASS \<and> \<not> path_change_allowed v then FAIL
          else fst acc
      | _ \<Rightarrow> fst acc)"
  by (simp add: path_step_def is_pass_def Let_def split: option.splits)

lemma status_validate_steps:
  "status (validate v b c) =
     fst (path_step v b c (loss_step v b c (latency_step v b c (PASS, []))))"
  by (simp add: validate_def Let_def)

lemma status_validate:
  "status (validate v b c) =
     (if FAIL \<in> set (subcheck_statuses v b c)
         \<or> (WARNING \<in> set (subcheck_statuses v b c) \<and> \<not> path_change_allowed v)
      then FAIL else PASS)"
  unfolding status_validate_steps fst_path_step fst_loss_step fst_latency_step
    subcheck_statuses_def
  by (cases "latency b"; cases "latency c"; cases "path b"; cases "path c";
      simp add: status_subchecks)

lemmas validate_unfold =
  validate_def latency_step_def loss_step_def path_step_def is_pass_def Let_def
  validate_path_def validate_latency_def validate_packet_loss_def
  default_validator_def NetworkValidator_init_def one_hop_snapshot_def

text \<open>
  C1, as the code has it. The default of \<^verbatim>\<open>path_change_allowed\<close> is \<^verbatim>\<open>False\<close>,
  not true. For snapshots that both hold a path, with different hop-address sequences,
  and whose latency and loss checks pass (or do not run): the path sub-check reports
  Warning, and the overall verdict is Pass when the validator was built with
  \<^verbatim>\<open>path_change_allowed = True\<close> and Fail when it was not, which includes the default
  validator.
\<close>

theorem validate_path_difference:
  assumes "path b = Some bp" and "path c = Some cp"
    and "map ip_address (hops bp) \<noteq> map ip_address (hops cp)"
    and "\<forall>bl cl. latency b = Some bl \<and> latency c = Some cl \<longrightarrow>
           status (validate_latency v bl cl) = PASS \<and>
           status (validate_packet_loss v bl cl) = PASS"
  shows "path_change_allowed default_validator = False \<and>
         status (validate_path v bp cp) = WARNING \<and>
         status (validate v b c) = (if path_change_allowed v then PASS else FAIL)"
proof -
  have dflt: "path_change_allowed default_validator = False"
    by (simp add: default_validator_def NetworkValidator_init_def)
  have sub: "status (validate_path v bp cp) = WARNING"
    using assms(3) by (simp add: status_validate_path)
  have "status (validate v b c) = (if path_change_allowed v then PASS else FAIL)"
    unfolding status_validate_steps fst_path_step fst_loss_step fst_latency_step
    using assms(1,2,4) sub by (cases "latency b"; cases "latency c"; simp)
  with dflt sub show ?thesis by simp
qed

text \<open>
  The theorem at a validator built with \<^verbatim>\<open>path_change_allowed = True\<close> and two
  one-hop paths at different addresses: Warning from the sub-check, Pass overall.
\<close>

theorem validate_path_difference_witness:
  "status (validate_path (NetworkValidator_init None None (Some True))
             (the (path (one_hop_snapshot ''10.0.0.1'')))
             (the (path (one_hop_snapshot ''10.0.1.1'')))) = WARNING \<and>
   status (validate (NetworkValidator_init None None (Some True))
             (one_hop_snapshot ''10.0.0.1'') (one_hop_snapshot ''10.0.1.1'')) = PASS"
  using validate_path_difference
    [of "one_hop_snapshot ''10.0.0.1''" "the (path (one_hop_snapshot ''10.0.0.1''))"
        "one_hop_snapshot ''10.0.1.1''" "the (path (one_hop_snapshot ''10.0.1.1''))"
        "NetworkValidator_init None None (Some True)"]
  by (simp add: one_hop_snapshot_def NetworkValidator_init_def status_subchecks)

text \<open>
  C1 as stated fails: the validator built with no arguments has
  \<^verbatim>\<open>path_change_allowed = False\<close>, and on two snapshots that differ only in the address
  of their single hop (same latency and loss, so both of those checks pass) it returns
  Fail.
\<close>

theorem default_validator_path_difference_fails:
  "path_change_allowed default_validator = False \<and>
   map ip_address (hops (the (path (one_hop_snapshot ''10.0.0.1'')))) \<noteq>
   map ip_address (hops (the (path (one_hop_snapshot ''10.0.1.1'')))) \<and>
   status (validate_latency default_validator
             (the (latency (one_hop_snapshot ''10.0.0.1'')))
             (the (latency (one_hop_snapshot ''10.0.1.1'')))) = PASS \<and>
   status (validate_packet_loss default_validator
             (the (latency (one_hop_snapshot ''10.0.0.1'')))
             (the (latency (one_hop_snapshot ''10.0.1.1'')))) = PASS \<and>
   status (validate default_validator
             (one_hop_snapshot ''10.0.0.1'') (one_hop_snapshot ''10.0.1.1'')) = FAIL"
  by (simp add: validate_unfold)

text \<open>
  C2, as the code has it. The overall status is Fail when a sub-check that ran reports
  Fail, or when the path sub-check reports Warning and path changes are not allowed;
  otherwise it is Pass. It is never Warning. When no sub-check reports Warning, this
  is the most severe status among the sub-checks that ran.
\<close>

theorem validate_overall_status:
  "status (validate v b c) =
     (if FAIL \<in> set (subcheck_statuses v b c)
         \<or> (WARNING \<in> set (subcheck_statuses v b c) \<and> \<not> path_change_allowed v)
      then FAIL else PASS) \<and>
   status (validate v b c) \<noteq> WARNING \<and>
   (WARNING \<notin> set (subcheck_statuses v b c) \<longrightarrow>
      status (validate v b c) = spec_most_severe (subcheck_statuses v b c))"
  by (simp add: status_validate spec_most_severe_def)

theorem validate_overall_status_witness:
  "status (validate default_validator
             (one_hop_snapshot ''10.0.0.1'') (one_hop_snapshot ''10.0.0.1'')) = PASS \<and>
   spec_most_severe (subcheck_statuses default_validator
             (one_hop_snapshot ''10.0.0.1'') (one_hop_snapshot ''10.0.0.1'')) = PASS"
  using validate_overall_status
    [of default_validator "one_hop_snapshot ''10.0.0.1''" "one_hop_snapshot ''10.0.0.1''"]
  by (simp add: subcheck_statuses_def one_hop_snapshot_def status_subchecks
      spec_most_severe_def default_validator_def NetworkValidator_init_def)

text \<open>
  C2 as stated fails. On two snapshots that differ only in the address of their single
  hop, the latency and loss sub-checks report Pass and the path sub-check reports
  Warning, so the most severe sub-check status is Warning; the overall status is Fail
  under the default validator and Pass under a validator that allows path changes.
\<close>

theorem validate_not_most_severe:
  "subcheck_statuses default_validator
     (one_hop_snapshot ''10.0.0.1'') (one_hop_snapshot ''10.0.1.1'') =
     [PASS, PASS, WARNING] \<and>
   spec_most_severe [PASS, PASS, WARNING] = WARNING \<and>
   status (validate default_validator
             (one_hop_snapshot ''10.0.0.1'') (one_hop_snapshot ''10.0.1.1'')) = FAIL \<and>
   subcheck_statuses (NetworkValidator_init None None (Some True))
     (one_hop_snapshot ''10.0.0.1'') (one_hop_snapshot ''10.0.1.1'') =
     [PASS, PASS, WARNING] \<and>
   status (validate (NetworkValidator_init None None (Some True))
             (one_hop_snapshot ''10.0.0.1'') (one_hop_snapshot ''10.0.1.1'')) = PASS"
  by (simp add: validate_unfold subcheck_statuses_def spec_most_severe_def)

section \<open>Properties of the string operations\<close>












lemma split_char_not_Nil: "split_char sep s \<noteq> []"
  by (induction s) (auto split: list.splits)

lemma split_char_append:
  "split_char sep (a @ sep # b) = split_char sep a @ split_char sep b"
proof (induction a)
  case Nil
  show ?case by simp
next
  case (Cons c a)
  obtain w ws where "split_char sep a = w # ws"
    using split_char_not_Nil [of sep a] by (cases "split_char sep a") auto
  with Cons show ?case by simp
qed

lemma split_char_no_sep: "sep \<notin> set u \<Longrightarrow> split_char sep u = [u]"
  by (induction u) auto

lemmas string_unfold =
  strip_def is_space_def whitespace_chars_def split_ws_def item_def
  replace_eth.simps isdigit_def is_digit_def digit_chars_def

lemmas device_unfold =
  send_config_def connected_device_def connect_def SimulatedDevice_init_def quiet_node_def
  config_lines_def log_to_def apply_line_def try_line_def apply_hostname_def
  apply_interface_def apply_ip_address_def apply_ip_route_def target_if_name_def
  target_eth_num_def cidr_of_def cidr_map_def then_cmd_def dev_cmd_def node_cmd_def
  switch_setup_def verify_ip_def commit_def disconnect_def Let_def

section \<open>Properties of the simulated device\<close>

text \<open>
  What a configuration line cannot change: the identity of the device, its connection
  and pending flags, its history, and whether it has a node. The lines only talk to the
  node, set the interface context and log.
\<close>

lemma same_frame_refl: "same_frame d d"
  by (simp add: same_frame_def)

lemma same_frame_log_to: "same_frame d0 d \<Longrightarrow> same_frame d0 (log_to d e)"
  by (simp add: same_frame_def log_to_def)

lemma same_frame_interface:
  "same_frame d0 d \<Longrightarrow> same_frame d0 (d\<lparr>current_interface := c\<rparr>)"
  by (simp add: same_frame_def)

lemma same_frame_dev_cmd: "same_frame d0 d \<Longrightarrow> same_frame d0 (fst (dev_cmd d c))"
  by (auto simp: same_frame_def dev_cmd_def node_cmd_def split: option.splits)

lemma same_frame_then_cmd:
  assumes "same_frame d0 (fst r)"
    and "\<And>d s. same_frame d0 d \<Longrightarrow> same_frame d0 (fst (k d s))"
  shows "same_frame d0 (fst (then_cmd r k))"
  using assms by (cases r) (auto simp: then_cmd_def split: cmd_result.splits)

lemmas frame_intros =
  same_frame_then_cmd same_frame_dev_cmd same_frame_log_to same_frame_interface

lemma same_frame_apply_hostname:
  "same_frame d0 d \<Longrightarrow> same_frame d0 (fst (apply_hostname d stripped))"
  unfolding apply_hostname_def Let_def
  by (auto split: sum.splits intro!: frame_intros)

lemma same_frame_apply_interface:
  "same_frame d0 d \<Longrightarrow> same_frame d0 (fst (apply_interface d stripped))"
  unfolding apply_interface_def
  by (auto split: sum.splits intro!: frame_intros)

lemma same_frame_switch_setup:
  "same_frame d0 d \<Longrightarrow> same_frame d0 (fst (switch_setup d if_name))"
  unfolding switch_setup_def
  by (auto intro!: frame_intros)

lemma same_frame_verify_ip:
  "same_frame d0 d \<Longrightarrow> same_frame d0 (fst (verify_ip d if_name ip_addr cidr))"
  unfolding verify_ip_def
  by (auto intro!: frame_intros)

lemma same_frame_after_link:
  assumes "same_frame d0 d"
  shows "same_frame d0
           (fst (case switch_setup d if_name of
                   (d, Some e) \<Rightarrow> (d, Some e)
                 | (d, None) \<Rightarrow> verify_ip d if_name ip_addr cidr))"
proof (cases "switch_setup d if_name")
  case (Pair d' r)
  with same_frame_switch_setup [OF assms, of if_name] have "same_frame d0 d'" by simp
  with Pair show ?thesis by (cases r) (simp_all add: same_frame_verify_ip)
qed

lemma same_frame_apply_ip_address:
  "same_frame d0 d \<Longrightarrow> same_frame d0 (fst (apply_ip_address d line stripped))"
  unfolding apply_ip_address_def Let_def
  by (auto split: sum.splits list.splits intro!: frame_intros same_frame_after_link)

lemma same_frame_apply_ip_route:
  "same_frame d0 d \<Longrightarrow> same_frame d0 (fst (apply_ip_route d line))"
  unfolding apply_ip_route_def Let_def
  by (auto split: sum.splits list.splits intro!: frame_intros)

lemma same_frame_try_line: "same_frame d0 d \<Longrightarrow> same_frame d0 (fst (try_line d line))"
  unfolding try_line_def Let_def
  by (auto intro: same_frame_apply_hostname same_frame_apply_interface
      same_frame_apply_ip_address same_frame_apply_ip_route)

lemma same_frame_apply_line: "same_frame d0 d \<Longrightarrow> same_frame d0 (apply_line d line)"
proof -
  assume a: "same_frame d0 d"
  obtain d' r where t: "try_line d line = (d', r)" by (cases "try_line d line")
  with same_frame_try_line [OF a, of line] have "same_frame d0 d'" by simp
  with t show ?thesis
    by (cases r) (simp_all add: apply_line_def same_frame_log_to)
qed

lemma same_frame_foldl:
  "same_frame d0 d \<Longrightarrow> same_frame d0 (foldl apply_line d ls)"
  by (induction ls arbitrary: d) (simp_all add: same_frame_apply_line)

lemma config_lines_append:
  "config_lines (a @ CHR 0x0A # b) = config_lines a @ config_lines b"
  by (simp add: config_lines_def split_char_append)

lemma config_lines_single:
  "CHR 0x0A \<notin> set u \<Longrightarrow> strip u \<noteq> [] \<Longrightarrow> \<not> startswith (strip u) ''#'' \<Longrightarrow>
   config_lines u = [u]"
  by (simp add: config_lines_def split_char_no_sep)

lemma config_lines_with_line:
  assumes "CHR 0x0A \<notin> set u" "strip u \<noteq> []" "\<not> startswith (strip u) ''#''"
  shows "config_lines (a @ [CHR 0x0A] @ u @ [CHR 0x0A] @ b) =
         config_lines a @ [u] @ config_lines b"
proof -
  have "config_lines (a @ CHR 0x0A # (u @ CHR 0x0A # b)) =
        config_lines a @ config_lines u @ config_lines b"
    by (simp only: config_lines_append)
  with assms show ?thesis by (simp add: config_lines_single)
qed



lemma send_config_ok:
  assumes "connected d" "node d \<noteq> None"
  shows "send_config d cfg =
     (log_to ((foldl apply_line (d\<lparr>current_interface := None\<rparr>) (config_lines cfg))
                \<lparr>applied_config := applied_config d @ config_lines cfg,
                  config_pending := True\<rparr>)
        (LogInfo, SentConfiguration (device_name d) (length (config_lines cfg))),
      Returns PyNone)"
proof -
  have "same_frame (d\<lparr>current_interface := None\<rparr>)
          (foldl apply_line (d\<lparr>current_interface := None\<rparr>) (config_lines cfg))"
    by (rule same_frame_foldl [OF same_frame_refl])
  then have "applied_config (foldl apply_line (d\<lparr>current_interface := None\<rparr>)
               (config_lines cfg)) = applied_config d"
    and "device_name (foldl apply_line (d\<lparr>current_interface := None\<rparr>)
               (config_lines cfg)) = device_name d"
    by (simp_all add: same_frame_def)
  with assms show ?thesis by (simp add: send_config_def Let_def)
qed

text \<open>
  C3, as the code has it. \<^verbatim>\<open>send_config\<close> has no \<^verbatim>\<open>return\<close> statement: on a
  connected device with a node it returns \<^verbatim>\<open>None\<close>, for every configuration text and
  every behaviour of the node. The number of lines processed (the lines of the text that
  are neither blank nor comments) is the number of lines it appends to the history and
  the count in its closing log message. It raises exactly when the device is not
  connected or has no node, and what it raises is a \<^verbatim>\<open>DeviceConnectionError\<close>.
\<close>

theorem send_config_contract:
  "snd (send_config d cfg) =
     (if \<not> connected d then Raises (DeviceNotConnected (device_name d))
      else if node d = None then Raises (CannotApplyNoNode (device_name d))
      else Returns PyNone) \<and>
   ((\<exists>e. snd (send_config d cfg) = Raises e \<and> is_DeviceConnectionError e) =
      (\<not> connected d \<or> node d = None)) \<and>
   ((\<exists>e. snd (send_config d cfg) = Raises e) = (\<not> connected d \<or> node d = None)) \<and>
   (connected d \<and> node d \<noteq> None \<longrightarrow>
      applied_config (fst (send_config d cfg)) = applied_config d @ config_lines cfg \<and>
      length (applied_config (fst (send_config d cfg))) =
        length (applied_config d) +
        length (filter (\<lambda>line. strip line \<noteq> [] \<and> \<not> startswith (strip line) ''#'')
                  (split_char CHR 0x0A cfg)) \<and>
      last (logged (fst (send_config d cfg))) =
        (LogInfo, SentConfiguration (device_name d) (length (config_lines cfg))))"
proof -
  have out: "snd (send_config d cfg) =
     (if \<not> connected d then Raises (DeviceNotConnected (device_name d))
      else if node d = None then Raises (CannotApplyNoNode (device_name d))
      else Returns PyNone)"
    by (simp add: send_config_def Let_def)
  have ok: "connected d \<and> node d \<noteq> None \<longrightarrow>
      applied_config (fst (send_config d cfg)) = applied_config d @ config_lines cfg \<and>
      length (applied_config (fst (send_config d cfg))) =
        length (applied_config d) +
        length (filter (\<lambda>line. strip line \<noteq> [] \<and> \<not> startswith (strip line) ''#'')
                  (split_char CHR 0x0A cfg)) \<and>
      last (logged (fst (send_config d cfg))) =
        (LogInfo, SentConfiguration (device_name d) (length (config_lines cfg)))"
    by (simp add: send_config_ok log_to_def) (simp add: config_lines_def)
  from out have r1: "(\<exists>e. snd (send_config d cfg) = Raises e \<and> is_DeviceConnectionError e) =
      (\<not> connected d \<or> node d = None)"
    by auto
  from out have r2: "(\<exists>e. snd (send_config d cfg) = Raises e) =
      (\<not> connected d \<or> node d = None)"
    by auto
  from out r1 r2 ok show ?thesis by (intro conjI)
qed

theorem send_config_contract_witness:
  "snd (send_config (connected_device ''r1'' ''router'' quiet_node)
          (''hostname r1'' @ [CHR 0x0A] @ ''# note'' @ [CHR 0x0A] @ ''interface eth0'')) =
     Returns PyNone \<and>
   applied_config (fst (send_config (connected_device ''r1'' ''router'' quiet_node)
          (''hostname r1'' @ [CHR 0x0A] @ ''# note'' @ [CHR 0x0A] @ ''interface eth0''))) =
     [''hostname r1'', ''interface eth0'']"
  using send_config_contract [of "connected_device ''r1'' ''router'' quiet_node"
      "''hostname r1'' @ [CHR 0x0A] @ ''# note'' @ [CHR 0x0A] @ ''interface eth0''"]
  by (simp add: connected_device_def connect_def SimulatedDevice_init_def quiet_node_def
      log_to_def config_lines_def string_unfold)

text \<open>
  C3 as stated fails: on a connected router with a node, sending the one line
  \<^verbatim>\<open>hostname r1\<close> returns \<^verbatim>\<open>None\<close>, not the count 1.
\<close>

theorem send_config_returns_none:
  "snd (send_config (connected_device ''r1'' ''router'' quiet_node) ''hostname r1'') =
     Returns PyNone \<and>
   length (config_lines ''hostname r1'') = 1 \<and>
   snd (send_config (connected_device ''r1'' ''router'' quiet_node) ''hostname r1'') \<noteq>
     Returns (PyInt (int (length (config_lines ''hostname r1''))))"
  by (simp add: device_unfold string_unfold)



lemma received_after_raise:
  "map_option received
     (node (fst (send_config (connected_device ''r1'' ''router'' raise_first_node)
          (''hostname r1'' @ [CHR 0x0A] @ ''banner motd foo'' @ [CHR 0x0A] @
           ''ip route 10.0.2.0 10.0.0.2'')))) =
   Some [''hostname r1'', ''ip route del 10.0.2.0/24 via 10.0.0.2 2>/dev/null || true'',
         ''ip route add 10.0.2.0/24 via 10.0.0.2 2>&1'']"
  by (simp add: device_unfold raise_first_node_def string_unfold)






lemma config_lines_all_skipped:
  assumes "\<forall>l \<in> set (split_char CHR 0x0A cfg). strip l = [] \<or> startswith (strip l) ''#''"
  shows "config_lines cfg = []"
  using assms by (auto simp: config_lines_def filter_empty_conv)

text \<open>
  C9. On a connected device with a node, a text whose every line is blank or a comment
  leaves the history and the node (so the commands it has received) unchanged, and sets
  the pending flag; a commit after it clears the flag and changes neither.
\<close>

theorem blank_config_frame:
  assumes "connected d" and "node d \<noteq> None"
    and "\<forall>l \<in> set (split_char CHR 0x0A cfg). strip l = [] \<or> startswith (strip l) ''#''"
  shows "snd (send_config d cfg) = Returns PyNone \<and>
    applied_config (fst (send_config d cfg)) = applied_config d \<and>
    node (fst (send_config d cfg)) = node d \<and>
    connected (fst (send_config d cfg)) \<and>
    config_pending (fst (send_config d cfg)) \<and>
    logged (fst (send_config d cfg)) =
      logged d @ [(LogInfo, SentConfiguration (device_name d) 0)] \<and>
    snd (commit (fst (send_config d cfg))) = Returns PyNone \<and>
    \<not> config_pending (fst (commit (fst (send_config d cfg)))) \<and>
    applied_config (fst (commit (fst (send_config d cfg)))) = applied_config d \<and>
    node (fst (commit (fst (send_config d cfg)))) = node d"
  using assms(1)
  unfolding send_config_ok [OF assms(1,2)] config_lines_all_skipped [OF assms(3)]
  by (simp add: log_to_def commit_def)

theorem blank_config_frame_witness:
  "applied_config (fst (send_config (connected_device ''r1'' ''router'' quiet_node)
      (''# only a comment'' @ [CHR 0x0A] @ ''   '' @ [CHR 0x0A]))) = [] \<and>
   config_pending (fst (send_config (connected_device ''r1'' ''router'' quiet_node)
      (''# only a comment'' @ [CHR 0x0A] @ ''   '' @ [CHR 0x0A]))) \<and>
   \<not> config_pending (fst (commit (fst (send_config
      (connected_device ''r1'' ''router'' quiet_node)
      (''# only a comment'' @ [CHR 0x0A] @ ''   '' @ [CHR 0x0A])))))"
  using blank_config_frame [of "connected_device ''r1'' ''router'' quiet_node"
      "''# only a comment'' @ [CHR 0x0A] @ ''   '' @ [CHR 0x0A]"]
  by (simp add: connected_device_def connect_def SimulatedDevice_init_def quiet_node_def
      log_to_def string_unfold)

section \<open>Properties of the session\<close>










section \<open>Properties of the telemetry parsers\<close>


lemma py_float_digits:
  assumes "s \<noteq> []" and "list_all is_digit s"
  shows "\<exists>v. py_float s = Inr v"
proof -
  have tw: "takeWhile is_digit s = s"
    using assms(2) by (simp add: takeWhile_eq_all_conv list_all_iff)
  have dw: "dropWhile is_digit s = []"
    using assms(2) by (simp add: list_all_iff)
  show ?thesis
    using assms(1) by (simp add: py_float_def Let_def tw dw)
qed

lemma is_digit_not_dot: "\<not> is_digit CHR ''.''"
  by (simp add: is_digit_def digit_chars_def)

lemma py_float_decimal:
  assumes "ds \<noteq> []" "list_all is_digit ds" "list_all is_digit fs"
  shows "\<exists>v. py_float (ds @ ''.'' @ fs) = Inr v"
proof -
  have t: "takeWhile is_digit (ds @ CHR ''.'' # fs) = ds"
    using assms(2) is_digit_not_dot by (simp add: takeWhile_tail list_all_iff)
  have d: "dropWhile is_digit (ds @ CHR ''.'' # fs) = CHR ''.'' # fs"
    using assms(2) is_digit_not_dot by (simp add: dropWhile_append3 list_all_iff)
  from assms t d show ?thesis by (simp add: py_float_def)
qed

lemma list_all_takeWhile: "list_all P (takeWhile P xs)"
  by (induction xs) auto

lemma loss_match_at_float:
  assumes "loss_match_at s = Some g"
  shows "\<exists>v. py_float g = Inr v"
proof -
  let ?ds = "takeWhile is_digit s"
  let ?fs = "takeWhile is_digit (tl (dropWhile is_digit s))"
  from assms have ne: "?ds \<noteq> []"
    by (auto simp: loss_match_at_def Let_def split: if_splits)
  from assms consider "g = ?ds @ ''.'' @ ?fs" | "g = ?ds"
    by (auto simp: loss_match_at_def Let_def split: if_splits)
  then show ?thesis
  proof cases
    case 1
    then show ?thesis
      using py_float_decimal [OF ne, of ?fs] by (simp add: list_all_takeWhile)
  next
    case 2
    then show ?thesis
      using py_float_digits [OF ne] by (simp add: list_all_takeWhile)
  qed
qed

lemma loss_search_float: "loss_search s = Some g \<Longrightarrow> \<exists>v. py_float g = Inr v"
  by (induction s) (auto split: option.splits dest: loss_match_at_float)






lemma py_int_error: "py_int s = Inl e \<Longrightarrow> e = ValueError"
  by (auto simp: py_int_def Let_def split: if_splits)

lemma convert_line_error: "convert_line l = Inl e \<Longrightarrow> e = ValueError"
  by (auto simp: convert_line_def Let_def split: sum.splits dest: py_int_error)

lemma collect_counters_error:
  "(collect_counters ls = Inl e) =
     (e = ValueError \<and> (\<exists>l \<in> set ls. \<not> skipped l \<and> convert_line l = Inl ValueError))"
proof (induction ls)
  case Nil
  show ?case by simp
next
  case (Cons l ls)
  show ?case
  proof (cases "skipped l")
    case True
    with Cons show ?thesis by simp
  next
    case False
    show ?thesis
    proof (cases "convert_line l")
      case (Inl x)
      with convert_line_error [OF Inl] False show ?thesis by auto
    next
      case (Inr c)
      with False Cons show ?thesis by (auto split: sum.splits)
    qed
  qed
qed

lemma collect_counters_result:
  "collect_counters ls = Inr cs \<Longrightarrow>
   map Inr cs = map convert_line (filter (\<lambda>l. \<not> skipped l) ls)"
proof (induction ls arbitrary: cs)
  case Nil
  then show ?case by simp
next
  case (Cons l ls)
  then show ?case by (auto split: if_splits sum.splits)
qed

lemma collect_counters_skip:
  "skipped l \<Longrightarrow> collect_counters (pre @ l # post) = collect_counters (pre @ post)"
  by (induction pre) (simp_all split: sum.splits)

lemma short_line_skipped: "length (stats_of l) < 16 \<Longrightarrow> skipped l"
  by (simp add: skipped_def Let_def)

lemmas counters_unfold =
  parse_proc_net_dev_def skipped_def stats_of_def convert_line_def py_int_def
  letters_line_def eth0_line_def strip_def split_ws_def isdigit_def
  is_digit_def digit_chars_def int_of_digits_def digit_val_def is_space_def
  whitespace_chars_def Let_def

text \<open>
  C7, as the code has it. The interface-counter parser counts the whitespace-separated
  fields after the colon, numeric or not. A line with fewer than sixteen of them is
  skipped and has no effect on the result. The parser raises \<^verbatim>\<open>ValueError\<close>, and
  nothing else, exactly when some line that is not skipped has a field among the six it
  reads that \<^verbatim>\<open>int\<close> rejects; otherwise it returns one record for each line that is
  not skipped, in order.
\<close>

theorem parse_proc_net_dev_result:
  "(parse_proc_net_dev out n = Inl e) =
     (e = ValueError \<and>
      (\<exists>l \<in> set (split_char CHR 0x0A out). \<not> skipped l \<and> convert_line l = Inl ValueError)) \<and>
   (parse_proc_net_dev out n = Inr cs \<longrightarrow>
      map Inr cs = map convert_line (filter (\<lambda>l. \<not> skipped l) (split_char CHR 0x0A out)) \<and>
      length cs = length (filter (\<lambda>l. \<not> skipped l) (split_char CHR 0x0A out))) \<and>
   (length (stats_of l) < 16 \<longrightarrow>
      skipped l \<and> collect_counters (pre @ l # post) = collect_counters (pre @ post))"
proof (intro conjI)
  show "(parse_proc_net_dev out n = Inl e) =
     (e = ValueError \<and>
      (\<exists>l \<in> set (split_char CHR 0x0A out). \<not> skipped l \<and> convert_line l = Inl ValueError))"
    unfolding parse_proc_net_dev_def by (rule collect_counters_error)
  show "parse_proc_net_dev out n = Inr cs \<longrightarrow>
      map Inr cs = map convert_line (filter (\<lambda>l. \<not> skipped l) (split_char CHR 0x0A out)) \<and>
      length cs = length (filter (\<lambda>l. \<not> skipped l) (split_char CHR 0x0A out))"
  proof
    assume "parse_proc_net_dev out n = Inr cs"
    then have m: "map Inr cs =
        map convert_line (filter (\<lambda>l. \<not> skipped l) (split_char CHR 0x0A out))"
      unfolding parse_proc_net_dev_def by (rule collect_counters_result)
    then have "length cs =
        length (filter (\<lambda>l. \<not> skipped l) (split_char CHR 0x0A out))"
      by (rule map_eq_imp_length_eq)
    with m show "map Inr cs =
        map convert_line (filter (\<lambda>l. \<not> skipped l) (split_char CHR 0x0A out)) \<and>
      length cs = length (filter (\<lambda>l. \<not> skipped l) (split_char CHR 0x0A out))"
      by simp
  qed
  show "length (stats_of l) < 16 \<longrightarrow>
      skipped l \<and> collect_counters (pre @ l # post) = collect_counters (pre @ post)"
    by (simp add: short_line_skipped collect_counters_skip)
qed

theorem parse_proc_net_dev_result_witness:
  "parse_proc_net_dev (eth0_line @ [CHR 0x0A] @ ''lo: 1 2 3'') ''h1'' =
     Inr [\<lparr> interface_name = ''eth0'', bytes_sent = 2500, bytes_received = 1500,
            packets_sent = 20, packets_received = 10, drops_sent = 2,
            drops_received = 1 \<rparr>] \<and>
   skipped ''lo: 1 2 3''"
  using parse_proc_net_dev_result
    [of "eth0_line @ [CHR 0x0A] @ ''lo: 1 2 3''" "''h1''" ValueError
        "[\<lparr> interface_name = ''eth0'', bytes_sent = 2500, bytes_received = 1500,
            packets_sent = 20, packets_received = 10, drops_sent = 2,
            drops_received = 1 \<rparr>]" "''lo: 1 2 3''" "[]" "[]"]
  by (simp add: counters_unfold)

text \<open>
  C7 as stated fails: a line with sixteen fields after the colon, none of them numeric,
  is not skipped, and the parser raises \<^verbatim>\<open>ValueError\<close> on it.
\<close>

theorem parse_proc_net_dev_raises:
  "length (stats_of letters_line) = 16 \<and>
   list_all (\<lambda>f. py_int f = Inl ValueError) (stats_of letters_line) \<and>
   parse_proc_net_dev letters_line ''h1'' = Inl ValueError"
  by (simp add: counters_unfold)

end
